theory Spec2Isabelle
  imports Complex_Main "HOL-Library.Sublist"
begin

section \<open>Python values used by \<open>src/eye_roll_scroll.py\<close>\<close>

text \<open>
  A Python \<open>float\<close> is a finite number, one of the two infinities, or a NaN. The finite
  values are modelled by the reals: rounding and overflow of finite arithmetic are not
  modelled, the special values and the way they compare are. The two zeros of IEEE
  arithmetic are one value \<open>Fin 0\<close> (they compare equal and are both falsy).
\<close>

datatype pyfloat = Fin real | PInf | NInf | NaN

datatype py_error = IndexError | ZeroDivisionError | ValueError | TypeError

text \<open>\<open>a - b\<close> on floats: never raises; \<open>inf - inf\<close> is a NaN.\<close>

fun py_sub :: "pyfloat \<Rightarrow> pyfloat \<Rightarrow> pyfloat" where
  "py_sub NaN b = NaN"
| "py_sub a NaN = NaN"
| "py_sub (Fin a) (Fin b) = Fin (a - b)"
| "py_sub (Fin a) PInf = NInf"
| "py_sub (Fin a) NInf = PInf"
| "py_sub PInf PInf = NaN"
| "py_sub PInf b = PInf"
| "py_sub NInf NInf = NaN"
| "py_sub NInf b = NInf"

text \<open>\<open>a < b\<close>, \<open>a <= b\<close>, \<open>a >= b\<close>, \<open>a == b\<close>: every comparison with a NaN is false.\<close>

fun py_lt :: "pyfloat \<Rightarrow> pyfloat \<Rightarrow> bool" where
  "py_lt NaN b = False"
| "py_lt a NaN = False"
| "py_lt (Fin a) (Fin b) = (a < b)"
| "py_lt NInf NInf = False"
| "py_lt NInf b = True"
| "py_lt a NInf = False"
| "py_lt PInf b = False"
| "py_lt a PInf = True"

fun py_le :: "pyfloat \<Rightarrow> pyfloat \<Rightarrow> bool" where
  "py_le NaN b = False"
| "py_le a NaN = False"
| "py_le (Fin a) (Fin b) = (a \<le> b)"
| "py_le NInf b = True"
| "py_le a NInf = False"
| "py_le a PInf = True"
| "py_le PInf b = False"

definition py_ge :: "pyfloat \<Rightarrow> pyfloat \<Rightarrow> bool" where
  "py_ge a b = py_le b a"

fun py_eq :: "pyfloat \<Rightarrow> pyfloat \<Rightarrow> bool" where
  "py_eq NaN b = False"
| "py_eq a NaN = False"
| "py_eq a b = (a = b)"

text \<open>
  \<open>a / b\<close> on floats raises \<open>ZeroDivisionError\<close> when the divisor is zero, whatever the
  dividend, and otherwise follows IEEE arithmetic.
\<close>

fun py_truediv :: "pyfloat \<Rightarrow> pyfloat \<Rightarrow> py_error + pyfloat" where
  "py_truediv a (Fin b) =
     (if b = 0 then Inl ZeroDivisionError
      else case a of
        Fin r \<Rightarrow> Inr (Fin (r / b))
      | PInf \<Rightarrow> Inr (if 0 < b then PInf else NInf)
      | NInf \<Rightarrow> Inr (if 0 < b then NInf else PInf)
      | NaN \<Rightarrow> Inr NaN)"
| "py_truediv a NaN = Inr NaN"
| "py_truediv (Fin r) b = Inr (Fin 0)"
| "py_truediv a b = Inr NaN"

text \<open>Truth value of a float, as \<open>or\<close> tests it: only zero is falsy.\<close>

fun py_truthy :: "pyfloat \<Rightarrow> bool" where
  "py_truthy (Fin r) = (r \<noteq> 0)"
| "py_truthy a = True"

text \<open>
  \<open>xs[i]\<close> on a sequence: a negative index counts from the end, an index outside
  \<open>-len(xs) .. len(xs) - 1\<close> raises \<open>IndexError\<close>.
\<close>

definition getitem :: "'a list \<Rightarrow> int \<Rightarrow> py_error + 'a" where
  "getitem xs i =
     (if 0 \<le> i \<and> i < int (length xs) then Inr (xs ! nat i)
      else if i < 0 \<and> - int (length xs) \<le> i then Inr (xs ! nat (int (length xs) + i))
      else Inl IndexError)"

text \<open>
  \<open>collections.deque(maxlen=n)\<close>: the constructor raises \<open>ValueError\<close> for a negative
  \<open>n\<close>; \<open>append\<close> adds on the right and then drops the leftmost element when the
  length exceeds \<open>maxlen\<close> (so a deque with \<open>maxlen = 0\<close> stays empty).
\<close>

record 'a deque =
  items :: "'a list"
  maxlen :: nat

definition deque_new :: "int \<Rightarrow> py_error + 'a deque" where
  "deque_new n = (if n < 0 then Inl ValueError else Inr \<lparr>items = [], maxlen = nat n\<rparr>)"

definition deque_append :: "'a deque \<Rightarrow> 'a \<Rightarrow> 'a deque" where
  "deque_append q v =
     (let appended = items q @ [v]
      in q\<lparr>items := (if maxlen q < length appended then tl appended else appended)\<rparr>)"

definition deque_clear :: "'a deque \<Rightarrow> 'a deque" where
  "deque_clear q = q\<lparr>items := []\<rparr>"

section \<open>The detector\<close>

text \<open>A landmark exposes its coordinates as attributes \<open>x\<close> and \<open>y\<close>.\<close>

record landmark =
  lm_x :: pyfloat
  lm_y :: pyfloat

record EyeRollConfig =
  roll_threshold :: pyfloat
  frames_required :: int
  debounce_seconds :: pyfloat
  scroll_amount :: int

definition default_config :: EyeRollConfig where
  "default_config =
     \<lparr>roll_threshold = Fin (65 / 100), frames_required = 3,
      debounce_seconds = Fin 1, scroll_amount = 500\<rparr>"

definition LEFT_EYE_TOP :: int where "LEFT_EYE_TOP = 159"
definition LEFT_EYE_BOTTOM :: int where "LEFT_EYE_BOTTOM = 145"
definition LEFT_IRIS_CENTER :: int where "LEFT_IRIS_CENTER = 468"
definition RIGHT_EYE_TOP :: int where "RIGHT_EYE_TOP = 386"
definition RIGHT_EYE_BOTTOM :: int where "RIGHT_EYE_BOTTOM = 374"
definition RIGHT_IRIS_CENTER :: int where "RIGHT_IRIS_CENTER = 473"

text \<open>
  The fields of \<open>EyeRollDetector\<close> that the decision logic uses. The face-mesh object
  built by the constructor is an external collaborator and is left out.
\<close>

record EyeRollDetector =
  config :: EyeRollConfig
  recent_scores :: "pyfloat deque"
  last_triggered :: pyfloat

text \<open>
  \<open>__init__\<close>: \<open>config or EyeRollConfig()\<close> takes the default for \<open>None\<close> (a dataclass
  instance is always truthy); the deque constructor may raise.
\<close>

definition EyeRollDetector_init :: "EyeRollConfig option \<Rightarrow> py_error + EyeRollDetector" where
  "EyeRollDetector_init cfg =
     (let c = (case cfg of None \<Rightarrow> default_config | Some given \<Rightarrow> given)
      in case deque_new (frames_required c) of
           Inl e \<Rightarrow> Inl e
         | Inr q \<Rightarrow> Inr \<lparr>config = c, recent_scores = q, last_triggered = Fin 0\<rparr>)"

text \<open>\<open>_eye_roll_score\<close>: three indexed reads in source order, then the guarded ratio.\<close>

definition eye_roll_score :: "landmark list \<Rightarrow> int \<Rightarrow> int \<Rightarrow> int \<Rightarrow> py_error + pyfloat" where
  "eye_roll_score landmarks eye_top eye_bottom iris_center =
     (case getitem landmarks eye_top of
        Inl e \<Rightarrow> Inl e
      | Inr t \<Rightarrow>
     (case getitem landmarks eye_bottom of
        Inl e \<Rightarrow> Inl e
      | Inr b \<Rightarrow>
     (case getitem landmarks iris_center of
        Inl e \<Rightarrow> Inl e
      | Inr c \<Rightarrow>
          (let top_y = lm_y t; bottom_y = lm_y b; iris_y = lm_y c;
               eye_height = py_sub bottom_y top_y
           in if py_le eye_height (Fin 0) then Inr (Fin 0)
              else py_truediv (py_sub top_y iris_y) eye_height))))"

definition process_landmarks :: "landmark list \<Rightarrow> py_error + (pyfloat \<times> pyfloat)" where
  "process_landmarks landmarks =
     (case eye_roll_score landmarks LEFT_EYE_TOP LEFT_EYE_BOTTOM LEFT_IRIS_CENTER of
        Inl e \<Rightarrow> Inl e
      | Inr left \<Rightarrow>
     (case eye_roll_score landmarks RIGHT_EYE_TOP RIGHT_EYE_BOTTOM RIGHT_IRIS_CENTER of
        Inl e \<Rightarrow> Inl e
      | Inr right \<Rightarrow> Inr (left, right)))"

text \<open>
  \<open>should_trigger\<close>. The argument \<open>clock\<close> is the value \<open>time.time()\<close> returns if the
  call reads it; \<open>now\<close> is \<open>None\<close> when the caller leaves the timestamp out. The line
  \<open>now = now or time.time()\<close> keeps a truthy \<open>now\<close> and reads the clock otherwise.
  The result is the returned boolean and the detector after the call.
\<close>

definition effective_now :: "pyfloat \<Rightarrow> pyfloat option \<Rightarrow> pyfloat" where
  "effective_now clock now =
     (case now of None \<Rightarrow> clock | Some t \<Rightarrow> if py_truthy t then t else clock)"

definition should_trigger ::
  "EyeRollDetector \<Rightarrow> pyfloat \<Rightarrow> pyfloat \<Rightarrow> pyfloat option \<Rightarrow> bool \<times> EyeRollDetector" where
  "should_trigger self clock score now =
     (let now' = effective_now clock now
      in if py_lt (py_sub now' (last_triggered self)) (debounce_seconds (config self))
         then (False, self)
         else
           (let appended = self\<lparr>recent_scores := deque_append (recent_scores self) score\<rparr>
            in if int (length (items (recent_scores appended))) < frames_required (config appended)
               then (False, appended)
               else if \<not> list_all (\<lambda>s. py_ge s (roll_threshold (config appended)))
                                   (items (recent_scores appended))
               then (False, appended)
               else (True, appended\<lparr>last_triggered := now',
                                     recent_scores := deque_clear (recent_scores appended)\<rparr>)))"

text \<open>
  A sequence of calls on one detector, each call given as the clock reading at the call,
  the score and the timestamp argument; the results are collected in call order.
\<close>

fun run_calls ::
  "EyeRollDetector \<Rightarrow> (pyfloat \<times> pyfloat \<times> pyfloat option) list \<Rightarrow> bool list \<times> EyeRollDetector" where
  "run_calls self [] = ([], self)"
| "run_calls self ((clock, score, now) # rest) =
     (case should_trigger self clock score now of
        (fired, self') \<Rightarrow>
          (case run_calls self' rest of (outs, final) \<Rightarrow> (fired # outs, final)))"

text \<open>
  The scores that calls append to \<open>recent_scores\<close>, in call order: a call contributes
  its score exactly when it gets past the debounce test of \<open>should_trigger\<close>.
\<close>

fun accumulated_scores ::
  "EyeRollDetector \<Rightarrow> (pyfloat \<times> pyfloat \<times> pyfloat option) list \<Rightarrow> pyfloat list" where
  "accumulated_scores self [] = []"
| "accumulated_scores self ((clock, score, now) # rest) =
     (if py_lt (py_sub (effective_now clock now) (last_triggered self))
               (debounce_seconds (config self))
      then []
      else [score])
     @ accumulated_scores (snd (should_trigger self clock score now)) rest"

text \<open>
  What the constructor establishes and every call keeps: the deque was built with
  \<open>maxlen = frames_required\<close>, which is not negative, and holds at most that many scores.
\<close>

definition gate_inv :: "EyeRollDetector \<Rightarrow> bool" where
  "gate_inv self =
     (0 \<le> frames_required (config self)
      \<and> maxlen (recent_scores self) = nat (frames_required (config self))
      \<and> length (items (recent_scores self)) \<le> maxlen (recent_scores self))"

section \<open>The trigger gate as the specification words it\<close>

text \<open>
  The five steps of the specification's \<open>should_trigger(score, now)\<close>, on the same state:
  debounce check, accumulate into the FIFO of capacity \<open>frames_required\<close>, fill check,
  threshold check with fire and clear, otherwise keep the buffer. The timestamp is always
  the caller's.
\<close>

definition spec_should_trigger ::
  "EyeRollDetector \<Rightarrow> pyfloat \<Rightarrow> pyfloat \<Rightarrow> bool \<times> EyeRollDetector" where
  "spec_should_trigger gate score now =
     (if py_lt (py_sub now (last_triggered gate)) (debounce_seconds (config gate))
      then (False, gate)
      else
        (let pushed = items (recent_scores gate) @ [score];
             buffer = (if frames_required (config gate) < int (length pushed)
                       then tl pushed else pushed);
             kept = gate\<lparr>recent_scores := (recent_scores gate)\<lparr>items := buffer\<rparr>\<rparr>
         in if int (length buffer) < frames_required (config gate) then (False, kept)
            else if list_all (\<lambda>s. py_ge s (roll_threshold (config gate))) buffer
            then (True, gate\<lparr>last_triggered := now,
                             recent_scores := (recent_scores gate)\<lparr>items := []\<rparr>\<rparr>)
            else (False, kept)))"

text \<open>The two configurations of the repository's trigger tests.\<close>

definition consecutive_frames_config :: EyeRollConfig where
  "consecutive_frames_config =
     \<lparr>roll_threshold = Fin (1 / 2), frames_required = 2,
      debounce_seconds = Fin 0, scroll_amount = 500\<rparr>"

definition debounce_config :: EyeRollConfig where
  "debounce_config =
     \<lparr>roll_threshold = Fin (1 / 2), frames_required = 1,
      debounce_seconds = Fin 1, scroll_amount = 500\<rparr>"

text \<open>The range the specification gives for scores of genuine upward rolls: 0 to 1.\<close>

definition in_nominal_range :: "pyfloat \<Rightarrow> bool" where
  "in_nominal_range s = (py_le (Fin 0) s \<and> py_le s (Fin 1))"

section \<open>The trigger gate on unchecked values\<close>

text \<open>
  Python does not check the annotations \<open>score: float\<close> and \<open>now: float | None\<close>: a call
  can pass any object, and the detector stores what it is given. The second embedding of
  \<open>should_trigger\<close> below keeps the values unchecked, so that every operation of the method
  that can raise has its failing branch. A value is a float, \<open>None\<close>, or a string, which
  stands for the objects that are not numbers.
\<close>

datatype pyval = PyFloat pyfloat | PyNone | PyStr string

text \<open>Truth value, as \<open>or\<close> tests it: \<open>None\<close> and the empty string are falsy.\<close>

fun val_truthy :: "pyval \<Rightarrow> bool" where
  "val_truthy (PyFloat a) = py_truthy a"
| "val_truthy PyNone = False"
| "val_truthy (PyStr s) = (s \<noteq> [])"

text \<open>\<open>a - b\<close>: \<open>TypeError\<close> unless both operands are numbers.\<close>

fun val_sub :: "pyval \<Rightarrow> pyval \<Rightarrow> py_error + pyval" where
  "val_sub (PyFloat a) (PyFloat b) = Inr (PyFloat (py_sub a b))"
| "val_sub a b = Inl TypeError"

text \<open>\<open>a < b\<close> and \<open>a >= b\<close> against a float \<open>b\<close>: \<open>TypeError\<close> unless \<open>a\<close> is a number.\<close>

fun val_lt_float :: "pyval \<Rightarrow> pyfloat \<Rightarrow> py_error + bool" where
  "val_lt_float (PyFloat a) b = Inr (py_lt a b)"
| "val_lt_float a b = Inl TypeError"

fun val_ge_float :: "pyval \<Rightarrow> pyfloat \<Rightarrow> py_error + bool" where
  "val_ge_float (PyFloat a) b = Inr (py_ge a b)"
| "val_ge_float a b = Inl TypeError"

text \<open>
  \<open>all(s >= threshold for s in scores)\<close>: the scores are compared from the left, the first
  false comparison ends the loop, and a comparison that raises ends it with the exception.
\<close>

fun all_ge_threshold :: "pyval list \<Rightarrow> pyfloat \<Rightarrow> py_error + bool" where
  "all_ge_threshold [] threshold = Inr True"
| "all_ge_threshold (s # rest) threshold =
     (case val_ge_float s threshold of
        Inl e \<Rightarrow> Inl e
      | Inr holds \<Rightarrow> if holds then all_ge_threshold rest threshold else Inr False)"

record untyped_detector =
  u_config :: EyeRollConfig
  u_recent_scores :: "pyval deque"
  u_last_triggered :: pyval

text \<open>
  \<open>should_trigger\<close> on unchecked values. The result is the returned boolean or the
  exception raised, and the detector as the call leaves it: a score appended before the
  exception stays appended.
\<close>

definition should_trigger_untyped ::
  "untyped_detector \<Rightarrow> pyfloat \<Rightarrow> pyval \<Rightarrow> pyval \<Rightarrow> (py_error + bool) \<times> untyped_detector" where
  "should_trigger_untyped self clock score now =
     (let now' = (if val_truthy now then now else PyFloat clock)
      in case val_sub now' (u_last_triggered self) of
           Inl e \<Rightarrow> (Inl e, self)
         | Inr elapsed \<Rightarrow>
        (case val_lt_float elapsed (debounce_seconds (u_config self)) of
           Inl e \<Rightarrow> (Inl e, self)
         | Inr in_cooldown \<Rightarrow>
             if in_cooldown then (Inr False, self)
             else
               (let appended =
                      self\<lparr>u_recent_scores := deque_append (u_recent_scores self) score\<rparr>
                in if int (length (items (u_recent_scores appended)))
                        < frames_required (u_config appended)
                   then (Inr False, appended)
                   else
                     (case all_ge_threshold (items (u_recent_scores appended))
                                            (roll_threshold (u_config appended)) of
                        Inl e \<Rightarrow> (Inl e, appended)
                      | Inr above_threshold \<Rightarrow>
                          if \<not> above_threshold then (Inr False, appended)
                          else (Inr True,
                                appended\<lparr>u_last_triggered := now',
                                         u_recent_scores :=
                                           deque_clear (u_recent_scores appended)\<rparr>)))))"

text \<open>
  A detector that holds floats only, and a float or omitted timestamp, as unchecked
  values. The constructor builds such a detector: an empty deque and
  \<open>last_triggered = 0.0\<close>.
\<close>

definition as_untyped :: "EyeRollDetector \<Rightarrow> untyped_detector" where
  "as_untyped self =
     \<lparr>u_config = config self,
      u_recent_scores = \<lparr>items = map PyFloat (items (recent_scores self)),
                         maxlen = maxlen (recent_scores self)\<rparr>,
      u_last_triggered = PyFloat (last_triggered self)\<rparr>"

definition as_untyped_now :: "pyfloat option \<Rightarrow> pyval" where
  "as_untyped_now now = (case now of None \<Rightarrow> PyNone | Some t \<Rightarrow> PyFloat t)"

text \<open>
  A sequence of calls on unchecked values: an exception reaches the caller and ends the
  sequence.
\<close>

fun run_calls_untyped ::
  "untyped_detector \<Rightarrow> (pyfloat \<times> pyval \<times> pyval) list
     \<Rightarrow> (py_error + bool) list \<times> untyped_detector" where
  "run_calls_untyped self [] = ([], self)"
| "run_calls_untyped self ((clock, score, now) # rest) =
     (case should_trigger_untyped self clock score now of
        (Inl e, self') \<Rightarrow> ([Inl e], self')
      | (Inr fired, self') \<Rightarrow>
          (case run_calls_untyped self' rest of
             (outs, final) \<Rightarrow> (Inr fired # outs, final)))"

section \<open>The score\<close>

lemma py_le_sub_zero_not_div_error:
  "\<not> py_le h (Fin 0) \<Longrightarrow> \<exists>v. py_truediv a h = Inr v"
  by (cases h; cases a) auto

lemma py_lt_imp_sub_le_zero:
  "py_lt b t \<Longrightarrow> py_le (py_sub b t) (Fin 0)"
  by (cases b; cases t) auto

text \<open>
  Claim C2, amended. When the three indexed reads succeed, \<open>_eye_roll_score\<close> returns
  0.0 if \<open>bottom_y - top_y <= 0\<close> and \<open>(top_y - iris_y) / (bottom_y - top_y)\<close>
  otherwise, and the division never raises. The score is 0.0 for every \<open>bottom_y < top_y\<close>
  and for every finite \<open>top_y == bottom_y\<close>. For 0.2, 0.8, 0.1 it is
  \<open>(0.2 - 0.1) / (0.8 - 0.2)\<close>, within 0.0001 of 0.1667.
\<close>

theorem eye_roll_score_formula:
  assumes "getitem landmarks eye_top = Inr t"
    and "getitem landmarks eye_bottom = Inr b"
    and "getitem landmarks iris_center = Inr c"
  shows "eye_roll_score landmarks eye_top eye_bottom iris_center =
           (if py_le (py_sub (lm_y b) (lm_y t)) (Fin 0) then Inr (Fin 0)
            else py_truediv (py_sub (lm_y t) (lm_y c)) (py_sub (lm_y b) (lm_y t)))
         \<and> (\<exists>v. eye_roll_score landmarks eye_top eye_bottom iris_center = Inr v)
         \<and> ((\<exists>r. lm_y t = Fin r \<and> lm_y b = Fin r) \<or> py_lt (lm_y b) (lm_y t) \<longrightarrow>
              eye_roll_score landmarks eye_top eye_bottom iris_center = Inr (Fin 0))
         \<and> (lm_y t = Fin (2 / 10) \<and> lm_y b = Fin (8 / 10) \<and> lm_y c = Fin (1 / 10) \<longrightarrow>
              eye_roll_score landmarks eye_top eye_bottom iris_center
                = Inr (Fin ((2 / 10 - 1 / 10) / (8 / 10 - 2 / 10)))
              \<and> \<bar>(2 / 10 - 1 / 10) / (8 / 10 - 2 / 10) - 1667 / 10000 :: real\<bar> < 1 / 10000)"
proof -
  let ?h = "py_sub (lm_y b) (lm_y t)"
  have formula: "eye_roll_score landmarks eye_top eye_bottom iris_center =
           (if py_le ?h (Fin 0) then Inr (Fin 0)
            else py_truediv (py_sub (lm_y t) (lm_y c)) ?h)"
    using assms by (simp add: eye_roll_score_def Let_def)
  have returns: "\<exists>v. eye_roll_score landmarks eye_top eye_bottom iris_center = Inr v"
    using py_le_sub_zero_not_div_error [of ?h "py_sub (lm_y t) (lm_y c)"]
    by (auto simp: formula)
  have degenerate: "eye_roll_score landmarks eye_top eye_bottom iris_center = Inr (Fin 0)"
    if "(\<exists>r. lm_y t = Fin r \<and> lm_y b = Fin r) \<or> py_lt (lm_y b) (lm_y t)"
    using that py_lt_imp_sub_le_zero [of "lm_y b" "lm_y t"] by (auto simp: formula)
  have example: "eye_roll_score landmarks eye_top eye_bottom iris_center
                = Inr (Fin ((2 / 10 - 1 / 10) / (8 / 10 - 2 / 10)))"
    if "lm_y t = Fin (2 / 10) \<and> lm_y b = Fin (8 / 10) \<and> lm_y c = Fin (1 / 10)"
    using that by (simp add: formula)
  have approx: "\<bar>(2 / 10 - 1 / 10) / (8 / 10 - 2 / 10) - 1667 / 10000 :: real\<bar> < 1 / 10000"
    by simp
  show ?thesis
    using formula returns degenerate example approx by blast
qed

text \<open>The formula at the specification's example and at a degenerate eye.\<close>

theorem eye_roll_score_formula_witness:
  "eye_roll_score
     [\<lparr>lm_x = Fin 0, lm_y = Fin (2 / 10)\<rparr>, \<lparr>lm_x = Fin 0, lm_y = Fin (8 / 10)\<rparr>,
      \<lparr>lm_x = Fin 0, lm_y = Fin (1 / 10)\<rparr>] 0 1 2 = Inr (Fin (1 / 6))
   \<and> eye_roll_score
     [\<lparr>lm_x = Fin 0, lm_y = Fin (1 / 2)\<rparr>, \<lparr>lm_x = Fin 0, lm_y = Fin (1 / 2)\<rparr>,
      \<lparr>lm_x = Fin 0, lm_y = Fin (1 / 10)\<rparr>] 0 1 2 = Inr (Fin 0)"
  using eye_roll_score_formula
     [of "[\<lparr>lm_x = Fin 0, lm_y = Fin (2 / 10)\<rparr>, \<lparr>lm_x = Fin 0, lm_y = Fin (8 / 10)\<rparr>,
      \<lparr>lm_x = Fin 0, lm_y = Fin (1 / 10)\<rparr>]" 0 "\<lparr>lm_x = Fin 0, lm_y = Fin (2 / 10)\<rparr>"
      1 "\<lparr>lm_x = Fin 0, lm_y = Fin (8 / 10)\<rparr>" 2 "\<lparr>lm_x = Fin 0, lm_y = Fin (1 / 10)\<rparr>"]
    eye_roll_score_formula
     [of "[\<lparr>lm_x = Fin 0, lm_y = Fin (1 / 2)\<rparr>, \<lparr>lm_x = Fin 0, lm_y = Fin (1 / 2)\<rparr>,
      \<lparr>lm_x = Fin 0, lm_y = Fin (1 / 10)\<rparr>]" 0 "\<lparr>lm_x = Fin 0, lm_y = Fin (1 / 2)\<rparr>"
      1 "\<lparr>lm_x = Fin 0, lm_y = Fin (1 / 2)\<rparr>" 2 "\<lparr>lm_x = Fin 0, lm_y = Fin (1 / 10)\<rparr>"]
  by (simp add: getitem_def)

text \<open>
  Claim C2 as stated fails for equal infinite coordinates: \<open>inf == inf\<close> holds, the
  height \<open>inf - inf\<close> is a NaN, \<open>nan <= 0\<close> is false, and the score is a NaN, not 0.0.
\<close>

theorem eye_roll_score_equal_infinities_counterexample:
  "py_eq PInf PInf
   \<and> eye_roll_score
       [\<lparr>lm_x = Fin 0, lm_y = PInf\<rparr>, \<lparr>lm_x = Fin 0, lm_y = PInf\<rparr>,
        \<lparr>lm_x = Fin 0, lm_y = Fin (1 / 2)\<rparr>] 0 1 2 = Inr NaN
   \<and> Inr NaN \<noteq> (Inr (Fin 0) :: py_error + pyfloat)"
  by (simp add: eye_roll_score_def getitem_def)

section \<open>Invariants of the gate\<close>

lemma deque_append_maxlen [simp]: "maxlen (deque_append q v) = maxlen q"
  by (simp add: deque_append_def Let_def)

lemma deque_append_length_le:
  "length (items q) \<le> maxlen q \<Longrightarrow> length (items (deque_append q v)) \<le> maxlen q"
  by (auto simp: deque_append_def Let_def)

lemma should_trigger_config [simp]:
  "config (snd (should_trigger self clock score now)) = config self"
  by (simp add: should_trigger_def Let_def)

lemma should_trigger_maxlen [simp]:
  "maxlen (recent_scores (snd (should_trigger self clock score now))) = maxlen (recent_scores self)"
  by (simp add: should_trigger_def Let_def deque_clear_def)

lemma should_trigger_length_le:
  "length (items (recent_scores self)) \<le> maxlen (recent_scores self) \<Longrightarrow>
   length (items (recent_scores (snd (should_trigger self clock score now))))
     \<le> maxlen (recent_scores self)"
  by (simp add: should_trigger_def Let_def deque_clear_def deque_append_length_le)

lemma gate_inv_should_trigger:
  "gate_inv self \<Longrightarrow> gate_inv (snd (should_trigger self clock score now))"
  unfolding gate_inv_def using should_trigger_length_le [of self clock score now] by simp

lemma gate_inv_init:
  "EyeRollDetector_init cfg = Inr fresh \<Longrightarrow> gate_inv fresh"
  by (auto simp: EyeRollDetector_init_def deque_new_def gate_inv_def Let_def split: if_splits)

lemma run_calls_config:
  "run_calls self calls = (outs, final) \<Longrightarrow> config final = config self"
proof (induction calls arbitrary: self outs)
  case Nil
  then show ?case by simp
next
  case (Cons call rest)
  obtain clock score now where call: "call = (clock, score, now)"
    by (cases call) auto
  obtain fired mid where step: "should_trigger self clock score now = (fired, mid)"
    by (cases "should_trigger self clock score now") auto
  obtain outs' where rest: "run_calls mid rest = (outs', final)"
    using Cons.prems call step by (auto split: prod.splits)
  have "config mid = config self"
    using should_trigger_config [of self clock score now] step by simp
  with Cons.IH [OF rest] show ?case by simp
qed

lemma gate_inv_run_calls:
  "gate_inv self \<Longrightarrow> run_calls self calls = (outs, final) \<Longrightarrow> gate_inv final"
proof (induction calls arbitrary: self outs)
  case Nil
  then show ?case by simp
next
  case (Cons call rest)
  obtain clock score now where call: "call = (clock, score, now)"
    by (cases call) auto
  obtain fired mid where step: "should_trigger self clock score now = (fired, mid)"
    by (cases "should_trigger self clock score now") auto
  obtain outs' where rest: "run_calls mid rest = (outs', final)"
    using Cons.prems(2) call step by (auto split: prod.splits)
  have "gate_inv mid"
    using gate_inv_should_trigger [OF Cons.prems(1), of clock score now] step by simp
  from Cons.IH [OF this rest] show ?case .
qed

lemma should_trigger_True_iff:
  "fst (should_trigger self clock score now) \<longleftrightarrow>
     \<not> py_lt (py_sub (effective_now clock now) (last_triggered self))
              (debounce_seconds (config self))
     \<and> frames_required (config self)
          \<le> int (length (items (deque_append (recent_scores self) score)))
     \<and> list_all (\<lambda>s. py_ge s (roll_threshold (config self)))
          (items (deque_append (recent_scores self) score))"
  by (simp add: should_trigger_def Let_def)

text \<open>
  Claim C7. In every state reached from the constructor by calls of \<open>should_trigger\<close>,
  a call returns true only if \<open>recent_scores\<close>, after the append of the current score,
  holds exactly \<open>frames_required\<close> scores and each of them is \<open>>= roll_threshold\<close>.
\<close>

theorem true_only_on_full_qualifying_buffer:
  assumes "EyeRollDetector_init cfg = Inr fresh"
    and "run_calls fresh calls = (outs, self)"
    and "should_trigger self clock score now = (True, self')"
  shows "int (length (items (deque_append (recent_scores self) score)))
           = frames_required (config self)
         \<and> list_all (\<lambda>s. py_ge s (roll_threshold (config self)))
             (items (deque_append (recent_scores self) score))"
proof -
  have inv: "gate_inv self"
    using gate_inv_run_calls [OF gate_inv_init [OF assms(1)] assms(2)] .
  have fired: "fst (should_trigger self clock score now)"
    using assms(3) by simp
  have upper: "length (items (deque_append (recent_scores self) score))
                 \<le> nat (frames_required (config self))"
    using inv deque_append_length_le [of "recent_scores self" score]
    by (simp add: gate_inv_def)
  have lower: "frames_required (config self)
                 \<le> int (length (items (deque_append (recent_scores self) score)))"
    using fired by (simp add: should_trigger_True_iff)
  have qualifying: "list_all (\<lambda>s. py_ge s (roll_threshold (config self)))
             (items (deque_append (recent_scores self) score))"
    using fired by (simp add: should_trigger_True_iff)
  have "0 \<le> frames_required (config self)"
    using inv by (simp add: gate_inv_def)
  with upper lower have "int (length (items (deque_append (recent_scores self) score)))
           = frames_required (config self)"
    by arith
  with qualifying show ?thesis by simp
qed

text \<open>The definitions unfolded to run the gate on concrete calls.\<close>

lemmas gate_eval =
  EyeRollDetector_init_def deque_new_def should_trigger_def effective_now_def
  deque_append_def deque_clear_def py_ge_def Let_def
  consecutive_frames_config_def debounce_config_def default_config_def

text \<open>
  The repository's consecutive-frames test: the second qualifying score fires, on a buffer
  of exactly two scores.
\<close>

theorem true_only_on_full_qualifying_buffer_witness:
  "(case EyeRollDetector_init (Some consecutive_frames_config) of
      Inl e \<Rightarrow> False
    | Inr fresh \<Rightarrow>
        (case run_calls fresh [(Fin 1700000000, Fin (6 / 10), Some (Fin 1))] of
           (outs, self) \<Rightarrow>
             outs = [False]
             \<and> fst (should_trigger self (Fin 1700000000) (Fin (7 / 10)) (Some (Fin (11 / 10))))
             \<and> int (length (items (deque_append (recent_scores self) (Fin (7 / 10))))) = 2
             \<and> list_all (\<lambda>s. py_ge s (Fin (1 / 2)))
                  (items (deque_append (recent_scores self) (Fin (7 / 10))))))"
proof -
  let ?fresh = "\<lparr>config = consecutive_frames_config,
                  recent_scores = \<lparr>items = [], maxlen = 2\<rparr>, last_triggered = Fin 0\<rparr>"
  let ?self = "\<lparr>config = consecutive_frames_config,
                 recent_scores = \<lparr>items = [Fin (6 / 10)], maxlen = 2\<rparr>, last_triggered = Fin 0\<rparr>"
  let ?fired = "\<lparr>config = consecutive_frames_config,
                 recent_scores = \<lparr>items = [], maxlen = 2\<rparr>, last_triggered = Fin (11 / 10)\<rparr>"
  have init: "EyeRollDetector_init (Some consecutive_frames_config) = Inr ?fresh"
    by (simp add: gate_eval)
  have run: "run_calls ?fresh [(Fin 1700000000, Fin (6 / 10), Some (Fin 1))] = ([False], ?self)"
    by (simp add: gate_eval)
  have fire: "should_trigger ?self (Fin 1700000000) (Fin (7 / 10)) (Some (Fin (11 / 10)))
                = (True, ?fired)"
    by (simp add: gate_eval)
  show ?thesis
    apply (simp only: init run fire sum.case prod.case fst_conv)
    using true_only_on_full_qualifying_buffer [OF init run fire]
    by (simp add: consecutive_frames_config_def)
qed

section \<open>Clear on fire\<close>

lemma deque_append_suffix:
  "suffix (items (deque_append q v)) (items q @ [v])"
  unfolding deque_append_def Let_def by (simp del: suffix_snoc)

lemma should_trigger_buffer_suffix:
  "suffix (items (recent_scores (snd (should_trigger self clock score now))))
          (items (recent_scores self) @ accumulated_scores self [(clock, score, now)])"
  using deque_append_suffix [of "recent_scores self" score]
  by (simp add: should_trigger_def Let_def deque_clear_def)

lemma run_calls_buffer_suffix:
  "run_calls self calls = (outs, final) \<Longrightarrow>
   suffix (items (recent_scores final))
          (items (recent_scores self) @ accumulated_scores self calls)"
proof (induction calls arbitrary: self outs)
  case Nil
  then show ?case by simp
next
  case (Cons call rest)
  obtain clock score now where call: "call = (clock, score, now)"
    by (cases call) auto
  obtain fired mid where step: "should_trigger self clock score now = (fired, mid)"
    by (cases "should_trigger self clock score now") auto
  obtain outs' where rest: "run_calls mid rest = (outs', final)"
    using Cons.prems call step by (auto split: prod.splits)
  let ?head = "accumulated_scores self [(clock, score, now)]"
  have split: "accumulated_scores self (call # rest) = ?head @ accumulated_scores mid rest"
    using call step by simp
  have "suffix (items (recent_scores mid)) (items (recent_scores self) @ ?head)"
    using should_trigger_buffer_suffix [of self clock score now] step by simp
  then have "suffix (items (recent_scores mid) @ accumulated_scores mid rest)
                    ((items (recent_scores self) @ ?head) @ accumulated_scores mid rest)"
    by (simp only: same_suffix_suffix)
  with Cons.IH [OF rest] show ?case
    unfolding split by (metis append.assoc suffix_order.trans)
qed

lemma length_accumulated_scores:
  "length (accumulated_scores self calls) \<le> length calls"
  by (induction self calls rule: accumulated_scores.induct) auto

text \<open>
  Claim C6. Right after a call that returns true, \<open>recent_scores\<close> is empty. If a later
  call returns true, then the scores accumulated since that fire, the current one included,
  end with a streak of at least \<open>frames_required\<close> scores that are all
  \<open>>= roll_threshold\<close>; so at least \<open>frames_required\<close> calls were made after the fire,
  and one more frame is enough only if \<open>frames_required\<close> is at most 1.
\<close>

theorem clear_on_fire_fresh_streak:
  assumes "should_trigger self clock score now = (True, fired)"
    and "run_calls fired calls = (outs, later)"
    and "should_trigger later clock' score' now' = (True, refired)"
  shows "items (recent_scores fired) = []
         \<and> (\<exists>streak. frames_required (config self) \<le> int (length streak)
               \<and> list_all (\<lambda>s. py_ge s (roll_threshold (config self))) streak
               \<and> suffix streak (accumulated_scores fired calls @ [score']))
         \<and> frames_required (config self) \<le> int (length calls) + 1"
proof -
  have fired_is: "fired = snd (should_trigger self clock score now)"
    using assms(1) by simp
  have empty: "items (recent_scores fired) = []"
    using assms(1) by (auto simp: should_trigger_def Let_def deque_clear_def split: if_splits)
  have cfg: "config later = config self"
    using run_calls_config [OF assms(2)] fired_is by simp
  let ?streak = "items (deque_append (recent_scores later) score')"
  have refire: "fst (should_trigger later clock' score' now')"
    using assms(3) by simp
  have full: "frames_required (config self) \<le> int (length ?streak)"
    using refire cfg by (simp add: should_trigger_True_iff)
  have qualifying: "list_all (\<lambda>s. py_ge s (roll_threshold (config self))) ?streak"
    using refire cfg by (simp add: should_trigger_True_iff)
  have "suffix (items (recent_scores later)) (accumulated_scores fired calls)"
    using run_calls_buffer_suffix [OF assms(2)] empty by simp
  then have "suffix (items (recent_scores later) @ [score'])
                    (accumulated_scores fired calls @ [score'])"
    by simp
  with deque_append_suffix [of "recent_scores later" score']
  have fresh: "suffix ?streak (accumulated_scores fired calls @ [score'])"
    by (rule suffix_order.trans)
  have "length ?streak \<le> length (accumulated_scores fired calls @ [score'])"
    using fresh by (rule suffix_length_le)
  also have "\<dots> \<le> length calls + 1"
    using length_accumulated_scores [of fired calls] by simp
  finally have "frames_required (config self) \<le> int (length calls) + 1"
    using full by linarith
  with empty full qualifying fresh show ?thesis by blast
qed

text \<open>
  After the second score of the consecutive-frames configuration fires, one more
  qualifying score does not fire again and the second one does.
\<close>

theorem clear_on_fire_fresh_streak_witness:
  "should_trigger
     \<lparr>config = consecutive_frames_config,
      recent_scores = \<lparr>items = [Fin (3 / 5)], maxlen = 2\<rparr>, last_triggered = Fin 0\<rparr>
     (Fin 1700000000) (Fin (7 / 10)) (Some (Fin (11 / 10)))
   = (True, \<lparr>config = consecutive_frames_config,
             recent_scores = \<lparr>items = [], maxlen = 2\<rparr>, last_triggered = Fin (11 / 10)\<rparr>)
   \<and> run_calls
       \<lparr>config = consecutive_frames_config,
        recent_scores = \<lparr>items = [], maxlen = 2\<rparr>, last_triggered = Fin (11 / 10)\<rparr>
       [(Fin 1700000000, Fin (4 / 5), Some (Fin (6 / 5)))]
     = ([False], \<lparr>config = consecutive_frames_config,
                  recent_scores = \<lparr>items = [Fin (4 / 5)], maxlen = 2\<rparr>,
                  last_triggered = Fin (11 / 10)\<rparr>)
   \<and> fst (should_trigger
       \<lparr>config = consecutive_frames_config,
        recent_scores = \<lparr>items = [Fin (4 / 5)], maxlen = 2\<rparr>,
        last_triggered = Fin (11 / 10)\<rparr>
       (Fin 1700000000) (Fin (9 / 10)) (Some (Fin (13 / 10))))
   \<and> (\<exists>streak. 2 \<le> int (length streak)
         \<and> list_all (\<lambda>s. py_ge s (Fin (1 / 2))) streak
         \<and> suffix streak [Fin (4 / 5), Fin (9 / 10)])"
proof -
  let ?self = "\<lparr>config = consecutive_frames_config,
      recent_scores = \<lparr>items = [Fin (3 / 5)], maxlen = 2\<rparr>, last_triggered = Fin 0\<rparr>"
  let ?fired = "\<lparr>config = consecutive_frames_config,
             recent_scores = \<lparr>items = [], maxlen = 2\<rparr>, last_triggered = Fin (11 / 10)\<rparr>"
  let ?later = "\<lparr>config = consecutive_frames_config,
                  recent_scores = \<lparr>items = [Fin (4 / 5)], maxlen = 2\<rparr>,
                  last_triggered = Fin (11 / 10)\<rparr>"
  let ?refired = "\<lparr>config = consecutive_frames_config,
                  recent_scores = \<lparr>items = [], maxlen = 2\<rparr>,
                  last_triggered = Fin (13 / 10)\<rparr>"
  have fire: "should_trigger ?self (Fin 1700000000) (Fin (7 / 10)) (Some (Fin (11 / 10)))
                = (True, ?fired)"
    by (simp add: gate_eval)
  have run: "run_calls ?fired [(Fin 1700000000, Fin (4 / 5), Some (Fin (6 / 5)))]
               = ([False], ?later)"
    by (simp add: gate_eval)
  have refire: "should_trigger ?later (Fin 1700000000) (Fin (9 / 10)) (Some (Fin (13 / 10)))
                  = (True, ?refired)"
    by (simp add: gate_eval)
  have acc: "accumulated_scores ?fired [(Fin 1700000000, Fin (4 / 5), Some (Fin (6 / 5)))]
               = [Fin (4 / 5)]"
    by (simp add: gate_eval)
  show ?thesis
    using clear_on_fire_fresh_streak [OF fire run refire] fire run refire
    by (simp only: acc) (simp add: consecutive_frames_config_def)
qed

section \<open>The start-up cooldown\<close>

lemma effective_now_truthy:
  "py_truthy t \<Longrightarrow> effective_now clock (Some t) = t"
  by (simp add: effective_now_def)

lemma py_lt_zero_truthy:
  "py_lt (Fin 0) t \<Longrightarrow> py_truthy t"
  by (cases t) auto

lemma py_sub_zero:
  "py_lt (Fin 0) t \<Longrightarrow> py_lt t d \<Longrightarrow> py_sub t (Fin 0) = t"
  by (cases t; cases d) auto

lemma init_last_triggered:
  "EyeRollDetector_init cfg = Inr fresh \<Longrightarrow> last_triggered fresh = Fin 0"
  by (auto simp: EyeRollDetector_init_def Let_def split: sum.splits)

text \<open>
  Claim C10. On a freshly constructed detector with \<open>debounce_seconds > 0\<close>, calls whose
  timestamps all satisfy \<open>0 < now < debounce_seconds\<close> all return false and leave the
  detector as constructed: no score is appended.
\<close>

theorem fresh_detector_starts_in_cooldown:
  assumes "EyeRollDetector_init cfg = Inr fresh"
    and "py_lt (Fin 0) (debounce_seconds (config fresh))"
    and "list_all (\<lambda>(clock, score, t).
            py_lt (Fin 0) t \<and> py_lt t (debounce_seconds (config fresh))) calls"
  shows "run_calls fresh (map (\<lambda>(clock, score, t). (clock, score, Some t)) calls)
           = (replicate (length calls) False, fresh)"
  using assms(3)
proof (induction calls)
  case Nil
  then show ?case by simp
next
  case (Cons call rest)
  obtain clock score t where call: "call = (clock, score, t)"
    by (cases call) auto
  have window: "py_lt (Fin 0) t" "py_lt t (debounce_seconds (config fresh))"
    using Cons.prems call by simp_all
  have "effective_now clock (Some t) = t"
    using window(1) by (simp add: effective_now_truthy py_lt_zero_truthy)
  moreover have "py_sub t (last_triggered fresh) = t"
    using window py_sub_zero init_last_triggered [OF assms(1)] by simp
  ultimately have step: "should_trigger fresh clock score (Some t) = (False, fresh)"
    using window(2) by (simp add: should_trigger_def Let_def)
  have "list_all (\<lambda>(clock, score, t).
            py_lt (Fin 0) t \<and> py_lt t (debounce_seconds (config fresh))) rest"
    using Cons.prems by simp
  from Cons.IH [OF this] show ?case
    using call step by simp
qed

text \<open>
  The debounce test's configuration: three calls at 0.25, 0.5 and 0.99 seconds on a fresh
  detector, all suppressed.
\<close>

theorem fresh_detector_starts_in_cooldown_witness:
  "run_calls
     \<lparr>config = debounce_config, recent_scores = \<lparr>items = [], maxlen = 1\<rparr>,
      last_triggered = Fin 0\<rparr>
     [(Fin 1700000000, Fin (9 / 10), Some (Fin (1 / 4))),
      (Fin 1700000001, Fin (9 / 10), Some (Fin (1 / 2))),
      (Fin 1700000002, Fin (9 / 10), Some (Fin (99 / 100)))]
   = ([False, False, False],
      \<lparr>config = debounce_config, recent_scores = \<lparr>items = [], maxlen = 1\<rparr>,
       last_triggered = Fin 0\<rparr>)"
proof -
  let ?fresh = "\<lparr>config = debounce_config, recent_scores = \<lparr>items = [], maxlen = 1\<rparr>,
      last_triggered = Fin 0\<rparr>"
  have init: "EyeRollDetector_init (Some debounce_config) = Inr ?fresh"
    by (simp add: gate_eval)
  have positive: "py_lt (Fin 0) (debounce_seconds (config ?fresh))"
    by (simp add: debounce_config_def)
  have window: "list_all (\<lambda>(clock, score, t).
            py_lt (Fin 0) t \<and> py_lt t (debounce_seconds (config ?fresh)))
          [(Fin 1700000000, Fin (9 / 10), Fin (1 / 4)),
           (Fin 1700000001, Fin (9 / 10), Fin (1 / 2)),
           (Fin 1700000002, Fin (9 / 10), Fin (99 / 100))]"
    by (simp add: debounce_config_def)
  from fresh_detector_starts_in_cooldown [OF init positive window] show ?thesis
    by simp
qed

section \<open>Per-eye independence\<close>

lemma eye_roll_score_cong:
  assumes "getitem xs eye_top = getitem ys eye_top"
    and "getitem xs eye_bottom = getitem ys eye_bottom"
    and "getitem xs iris_center = getitem ys iris_center"
  shows "eye_roll_score xs eye_top eye_bottom iris_center
           = eye_roll_score ys eye_top eye_bottom iris_center"
  unfolding eye_roll_score_def assms by (rule refl)

lemma getitem_in_range:
  "0 \<le> i \<Longrightarrow> i < int (length xs) \<Longrightarrow> \<exists>v. getitem xs i = Inr v"
  by (simp add: getitem_def)

lemma eye_roll_score_in_range:
  assumes "0 \<le> eye_top" "eye_top < int (length xs)"
    and "0 \<le> eye_bottom" "eye_bottom < int (length xs)"
    and "0 \<le> iris_center" "iris_center < int (length xs)"
  shows "\<exists>v. eye_roll_score xs eye_top eye_bottom iris_center = Inr v"
proof -
  obtain t b c where reads: "getitem xs eye_top = Inr t" "getitem xs eye_bottom = Inr b"
      "getitem xs iris_center = Inr c"
    using assms getitem_in_range by metis
  have "eye_roll_score xs eye_top eye_bottom iris_center =
          (if py_le (py_sub (lm_y b) (lm_y t)) (Fin 0) then Inr (Fin 0)
           else py_truediv (py_sub (lm_y t) (lm_y c)) (py_sub (lm_y b) (lm_y t)))"
    using reads by (simp add: eye_roll_score_def Let_def)
  then show ?thesis
    using py_le_sub_zero_not_div_error
      [of "py_sub (lm_y b) (lm_y t)" "py_sub (lm_y t) (lm_y c)"]
    by auto
qed

lemmas eye_indices =
  LEFT_EYE_TOP_def LEFT_EYE_BOTTOM_def LEFT_IRIS_CENTER_def
  RIGHT_EYE_TOP_def RIGHT_EYE_BOTTOM_def RIGHT_IRIS_CENTER_def

lemma process_landmarks_complete:
  assumes "474 \<le> length xs"
  shows "\<exists>left right.
           eye_roll_score xs LEFT_EYE_TOP LEFT_EYE_BOTTOM LEFT_IRIS_CENTER = Inr left
           \<and> eye_roll_score xs RIGHT_EYE_TOP RIGHT_EYE_BOTTOM RIGHT_IRIS_CENTER = Inr right
           \<and> process_landmarks xs = Inr (left, right)"
proof -
  obtain left where left: "eye_roll_score xs LEFT_EYE_TOP LEFT_EYE_BOTTOM LEFT_IRIS_CENTER = Inr left"
    using eye_roll_score_in_range [of LEFT_EYE_TOP xs LEFT_EYE_BOTTOM LEFT_IRIS_CENTER] assms
    by (auto simp: eye_indices)
  obtain right where right:
    "eye_roll_score xs RIGHT_EYE_TOP RIGHT_EYE_BOTTOM RIGHT_IRIS_CENTER = Inr right"
    using eye_roll_score_in_range [of RIGHT_EYE_TOP xs RIGHT_EYE_BOTTOM RIGHT_IRIS_CENTER] assms
    by (auto simp: eye_indices)
  show ?thesis
    using left right by (simp add: process_landmarks_def)
qed

text \<open>
  Claim C9. For two landmark collections that cover the six indices (length at least 474):
  if they agree at the left-eye indices 159, 145 and 468, \<open>process_landmarks\<close> returns
  the same left score for both, whatever the other landmarks are; if they agree at the
  right-eye indices 386, 374 and 473, it returns the same right score.
\<close>

theorem per_eye_independence:
  assumes "474 \<le> length xs" and "474 \<le> length ys"
  shows "(getitem xs LEFT_EYE_TOP = getitem ys LEFT_EYE_TOP
            \<and> getitem xs LEFT_EYE_BOTTOM = getitem ys LEFT_EYE_BOTTOM
            \<and> getitem xs LEFT_IRIS_CENTER = getitem ys LEFT_IRIS_CENTER
          \<longrightarrow> (\<exists>left right right'.
                 process_landmarks xs = Inr (left, right)
                 \<and> process_landmarks ys = Inr (left, right')))
         \<and> (getitem xs RIGHT_EYE_TOP = getitem ys RIGHT_EYE_TOP
            \<and> getitem xs RIGHT_EYE_BOTTOM = getitem ys RIGHT_EYE_BOTTOM
            \<and> getitem xs RIGHT_IRIS_CENTER = getitem ys RIGHT_IRIS_CENTER
          \<longrightarrow> (\<exists>left left' right.
                 process_landmarks xs = Inr (left, right)
                 \<and> process_landmarks ys = Inr (left', right)))"
proof -
  obtain lx rx where px:
      "eye_roll_score xs LEFT_EYE_TOP LEFT_EYE_BOTTOM LEFT_IRIS_CENTER = Inr lx"
      "eye_roll_score xs RIGHT_EYE_TOP RIGHT_EYE_BOTTOM RIGHT_IRIS_CENTER = Inr rx"
      "process_landmarks xs = Inr (lx, rx)"
    using process_landmarks_complete [OF assms(1)] by blast
  obtain ly ry where py:
      "eye_roll_score ys LEFT_EYE_TOP LEFT_EYE_BOTTOM LEFT_IRIS_CENTER = Inr ly"
      "eye_roll_score ys RIGHT_EYE_TOP RIGHT_EYE_BOTTOM RIGHT_IRIS_CENTER = Inr ry"
      "process_landmarks ys = Inr (ly, ry)"
    using process_landmarks_complete [OF assms(2)] by blast
  have left: "lx = ly"
    if "getitem xs LEFT_EYE_TOP = getitem ys LEFT_EYE_TOP"
      "getitem xs LEFT_EYE_BOTTOM = getitem ys LEFT_EYE_BOTTOM"
      "getitem xs LEFT_IRIS_CENTER = getitem ys LEFT_IRIS_CENTER"
    using eye_roll_score_cong [OF that] px(1) py(1) by simp
  have right: "rx = ry"
    if "getitem xs RIGHT_EYE_TOP = getitem ys RIGHT_EYE_TOP"
      "getitem xs RIGHT_EYE_BOTTOM = getitem ys RIGHT_EYE_BOTTOM"
      "getitem xs RIGHT_IRIS_CENTER = getitem ys RIGHT_IRIS_CENTER"
    using eye_roll_score_cong [OF that] px(2) py(2) by simp
  show ?thesis
    using left right px(3) py(3) by auto
qed

text \<open>
  The landmarks of the repository's score test, and the same collection with the three
  right-eye landmarks moved: the left score stays \<open>1/6\<close>, the right score changes.
\<close>

theorem per_eye_independence_witness:
  "process_landmarks
     ((replicate 474 \<lparr>lm_x = Fin 0, lm_y = Fin 0\<rparr>)
        [159 := \<lparr>lm_x = Fin 0, lm_y = Fin (1 / 5)\<rparr>,
         145 := \<lparr>lm_x = Fin 0, lm_y = Fin (4 / 5)\<rparr>,
         468 := \<lparr>lm_x = Fin 0, lm_y = Fin (1 / 10)\<rparr>])
     = Inr (Fin (1 / 6), Fin 0)
   \<and> process_landmarks
     ((replicate 474 \<lparr>lm_x = Fin 0, lm_y = Fin 0\<rparr>)
        [159 := \<lparr>lm_x = Fin 0, lm_y = Fin (1 / 5)\<rparr>,
         145 := \<lparr>lm_x = Fin 0, lm_y = Fin (4 / 5)\<rparr>,
         468 := \<lparr>lm_x = Fin 0, lm_y = Fin (1 / 10)\<rparr>,
         386 := \<lparr>lm_x = Fin 0, lm_y = Fin (1 / 2)\<rparr>,
         374 := \<lparr>lm_x = Fin 0, lm_y = Fin 1\<rparr>,
         473 := \<lparr>lm_x = Fin 0, lm_y = Fin (1 / 4)\<rparr>])
     = Inr (Fin (1 / 6), Fin (1 / 2))"
proof -
  let ?xs = "(replicate 474 \<lparr>lm_x = Fin 0, lm_y = Fin 0\<rparr>)
        [159 := \<lparr>lm_x = Fin 0, lm_y = Fin (1 / 5)\<rparr>,
         145 := \<lparr>lm_x = Fin 0, lm_y = Fin (4 / 5)\<rparr>,
         468 := \<lparr>lm_x = Fin 0, lm_y = Fin (1 / 10)\<rparr>]"
  let ?ys = "(replicate 474 \<lparr>lm_x = Fin 0, lm_y = Fin 0\<rparr>)
        [159 := \<lparr>lm_x = Fin 0, lm_y = Fin (1 / 5)\<rparr>,
         145 := \<lparr>lm_x = Fin 0, lm_y = Fin (4 / 5)\<rparr>,
         468 := \<lparr>lm_x = Fin 0, lm_y = Fin (1 / 10)\<rparr>,
         386 := \<lparr>lm_x = Fin 0, lm_y = Fin (1 / 2)\<rparr>,
         374 := \<lparr>lm_x = Fin 0, lm_y = Fin 1\<rparr>,
         473 := \<lparr>lm_x = Fin 0, lm_y = Fin (1 / 4)\<rparr>]"
  have lengths: "474 \<le> length ?xs" "474 \<le> length ?ys"
    by simp_all
  have agree: "getitem ?xs LEFT_EYE_TOP = getitem ?ys LEFT_EYE_TOP"
    "getitem ?xs LEFT_EYE_BOTTOM = getitem ?ys LEFT_EYE_BOTTOM"
    "getitem ?xs LEFT_IRIS_CENTER = getitem ?ys LEFT_IRIS_CENTER"
    by (simp_all add: getitem_def eye_indices)
  have px: "process_landmarks ?xs = Inr (Fin (1 / 6), Fin 0)"
    by (simp add: process_landmarks_def eye_roll_score_def getitem_def eye_indices)
  have right: "eye_roll_score ?ys RIGHT_EYE_TOP RIGHT_EYE_BOTTOM RIGHT_IRIS_CENTER
                 = Inr (Fin (1 / 2))"
    by (simp add: eye_roll_score_def getitem_def eye_indices)
  from per_eye_independence [OF lengths] agree px right show ?thesis
    by (auto simp: process_landmarks_def split: sum.splits)
qed

section \<open>Scores that do not qualify\<close>

lemma deque_append_last:
  "items (deque_append q v) = [] \<or> last (items (deque_append q v)) = v"
  by (cases "items q") (auto simp: deque_append_def Let_def last_tl)

lemma py_ge_NaN [simp]: "\<not> py_ge NaN b"
  by (cases b) (simp_all add: py_ge_def)

lemma should_trigger_needs_qualifying_score:
  assumes "1 \<le> frames_required (config self)"
    and "\<not> py_ge score (roll_threshold (config self))"
  shows "\<not> fst (should_trigger self clock score now)"
proof
  assume fired: "fst (should_trigger self clock score now)"
  let ?buffer = "items (deque_append (recent_scores self) score)"
  have "frames_required (config self) \<le> int (length ?buffer)"
    using fired by (simp add: should_trigger_True_iff)
  with assms(1) have "?buffer \<noteq> []"
    by auto
  with deque_append_last [of "recent_scores self" score] have "score \<in> set ?buffer"
    using last_in_set by metis
  moreover have "list_all (\<lambda>s. py_ge s (roll_threshold (config self))) ?buffer"
    using fired by (simp add: should_trigger_True_iff)
  ultimately have "py_ge score (roll_threshold (config self))"
    by (simp add: list_all_iff)
  with assms(2) show False by simp
qed

subsection \<open>No exception on floats\<close>

lemma all_ge_threshold_floats:
  "all_ge_threshold (map PyFloat scores) threshold
     = Inr (list_all (\<lambda>s. py_ge s threshold) scores)"
  by (induction scores) auto

lemma untyped_effective_now:
  "(if val_truthy (as_untyped_now now) then as_untyped_now now else PyFloat clock)
     = PyFloat (effective_now clock now)"
  by (cases now) (auto simp: as_untyped_now_def effective_now_def)

lemma untyped_deque_append:
  "deque_append \<lparr>items = map PyFloat (items q), maxlen = maxlen q\<rparr> (PyFloat score)
     = \<lparr>items = map PyFloat (items (deque_append q score)),
        maxlen = maxlen (deque_append q score)\<rparr>"
  by (simp add: deque_append_def Let_def map_tl)

lemma should_trigger_untyped_floats:
  "should_trigger_untyped (as_untyped self) clock (PyFloat score) (as_untyped_now now)
     = (Inr (fst (should_trigger self clock score now)),
        as_untyped (snd (should_trigger self clock score now)))"
  unfolding should_trigger_untyped_def untyped_effective_now
  by (simp add: as_untyped_def untyped_deque_append all_ge_threshold_floats
      should_trigger_def Let_def deque_clear_def)

text \<open>
  Hence no call of a sequence of float calls raises, from any detector that holds floats
  and so from the constructed one.
\<close>

lemma run_calls_untyped_floats:
  "run_calls_untyped (as_untyped self)
     (map (\<lambda>(clock, score, now). (clock, PyFloat score, as_untyped_now now)) calls)
   = (map Inr (fst (run_calls self calls)), as_untyped (snd (run_calls self calls)))"
proof (induction calls arbitrary: self)
  case Nil
  show ?case by simp
next
  case (Cons call rest)
  obtain clock score now where call: "call = (clock, score, now)"
    by (cases call) auto
  obtain fired mid where step: "should_trigger self clock score now = (fired, mid)"
    by (cases "should_trigger self clock score now") auto
  have untyped: "should_trigger_untyped (as_untyped self) clock (PyFloat score)
                   (as_untyped_now now) = (Inr fired, as_untyped mid)"
    using should_trigger_untyped_floats [of self clock score now] step by simp
  show ?case
    using call step untyped Cons.IH [of mid] by (simp split: prod.splits)
qed

text \<open>
  The annotations matter: on the debounce test's detector a score that is not a number
  raises \<open>TypeError\<close> in the threshold comparison, after it has been appended.
\<close>

lemma should_trigger_untyped_raises:
  "should_trigger_untyped
     (as_untyped \<lparr>config = debounce_config, recent_scores = \<lparr>items = [], maxlen = 1\<rparr>,
                  last_triggered = Fin 0\<rparr>)
     (Fin 1700000000) PyNone (PyFloat (Fin 10))
   = (Inl TypeError,
      \<lparr>u_config = debounce_config, u_recent_scores = \<lparr>items = [PyNone], maxlen = 1\<rparr>,
       u_last_triggered = PyFloat (Fin 0)\<rparr>)"
  by (simp add: should_trigger_untyped_def as_untyped_def deque_append_def Let_def
      debounce_config_def)

text \<open>
  Claim C8, amended. On a detector that holds floats, a call of \<open>should_trigger\<close> with a
  float score and a float or omitted timestamp raises no exception: it returns the boolean
  that \<open>should_trigger\<close> on floats computes and leaves a detector that holds floats again, so the
  same is true of every later call. A NaN score compared with the threshold gives false,
  not an exception. With \<open>frames_required >= 1\<close> a call whose score is a NaN, or any score
  that is not \<open>>= roll_threshold\<close>, returns false. Nothing is said about a score outside
  the nominal range that is \<open>>= roll_threshold\<close>: it is compared like any other score.
\<close>

theorem non_qualifying_scores_never_fire:
  "should_trigger_untyped (as_untyped self) clock (PyFloat score) (as_untyped_now now)
     = (Inr (fst (should_trigger self clock score now)),
        as_untyped (snd (should_trigger self clock score now)))
   \<and> val_ge_float (PyFloat NaN) (roll_threshold (config self)) = Inr False
   \<and> \<not> py_ge NaN (roll_threshold (config self))
   \<and> (1 \<le> frames_required (config self)
        \<longrightarrow> \<not> fst (should_trigger self clock NaN now))
   \<and> (1 \<le> frames_required (config self) \<and> \<not> py_ge score (roll_threshold (config self))
        \<longrightarrow> \<not> fst (should_trigger self clock score now))"
proof -
  have nan: "\<not> fst (should_trigger self clock NaN now)"
    if "1 \<le> frames_required (config self)"
    using should_trigger_needs_qualifying_score [OF that, of NaN] by simp
  have low: "\<not> fst (should_trigger self clock score now)"
    if "1 \<le> frames_required (config self)"
      and "\<not> py_ge score (roll_threshold (config self))"
    using should_trigger_needs_qualifying_score [OF that] .
  show ?thesis
    using should_trigger_untyped_floats [of self clock score now] nan low by simp
qed

text \<open>
  On the debounce test's detector, past the start-up cooldown: the score \<open>-inf\<close> is
  appended and the call returns false without an exception; a NaN score and the score
  \<open>-inf\<close> do not fire.
\<close>

theorem non_qualifying_scores_never_fire_witness:
  "should_trigger_untyped
     \<lparr>u_config = debounce_config, u_recent_scores = \<lparr>items = [], maxlen = 1\<rparr>,
      u_last_triggered = PyFloat (Fin 0)\<rparr>
     (Fin 1700000000) (PyFloat NInf) (PyFloat (Fin 10))
   = (Inr False,
      \<lparr>u_config = debounce_config, u_recent_scores = \<lparr>items = [PyFloat NInf], maxlen = 1\<rparr>,
       u_last_triggered = PyFloat (Fin 0)\<rparr>)
   \<and> 1 \<le> frames_required debounce_config
   \<and> \<not> fst (should_trigger
       \<lparr>config = debounce_config, recent_scores = \<lparr>items = [], maxlen = 1\<rparr>,
        last_triggered = Fin 0\<rparr>
       (Fin 1700000000) NaN (Some (Fin 10)))
   \<and> \<not> py_ge NInf (roll_threshold debounce_config)
   \<and> \<not> fst (should_trigger
       \<lparr>config = debounce_config, recent_scores = \<lparr>items = [], maxlen = 1\<rparr>,
        last_triggered = Fin 0\<rparr>
       (Fin 1700000000) NInf (Some (Fin 10)))"
proof -
  let ?fresh = "\<lparr>config = debounce_config, recent_scores = \<lparr>items = [], maxlen = 1\<rparr>,
        last_triggered = Fin 0\<rparr>"
  have frames: "1 \<le> frames_required (config ?fresh)"
    by (simp add: debounce_config_def)
  have low: "\<not> py_ge NInf (roll_threshold (config ?fresh))"
    by (simp add: debounce_config_def py_ge_def)
  have typed: "should_trigger ?fresh (Fin 1700000000) NInf (Some (Fin 10))
                 = (False, ?fresh\<lparr>recent_scores := \<lparr>items = [NInf], maxlen = 1\<rparr>\<rparr>)"
    by (simp add: gate_eval)
  from non_qualifying_scores_never_fire [of ?fresh "Fin 1700000000" NInf "Some (Fin 10)"]
    frames low typed
  show ?thesis
    by (simp add: as_untyped_def as_untyped_now_def debounce_config_def)
qed

text \<open>
  Claim C8 as stated fails for a score above the nominal range: 2.0 is outside \<open>[0, 1]\<close>,
  passes \<open>>= roll_threshold\<close> and fires the debounce test's detector.
\<close>

theorem out_of_range_score_qualifies_counterexample:
  "\<not> in_nominal_range (Fin 2)
   \<and> py_ge (Fin 2) (roll_threshold debounce_config)
   \<and> should_trigger
       \<lparr>config = debounce_config, recent_scores = \<lparr>items = [], maxlen = 1\<rparr>,
        last_triggered = Fin 0\<rparr>
       (Fin 1700000000) (Fin 2) (Some (Fin 10))
     = (True, \<lparr>config = debounce_config, recent_scores = \<lparr>items = [], maxlen = 1\<rparr>,
               last_triggered = Fin 10\<rparr>)"
  by (simp add: in_nominal_range_def gate_eval)

section \<open>The timestamp argument\<close>

text \<open>
  For a supplied timestamp that is not zero the call uses it and never reads the clock;
  the gate then does what the five steps of the specification say.
\<close>

lemma should_trigger_clock_irrelevant:
  "py_truthy t \<Longrightarrow>
   should_trigger self clock score (Some t) = should_trigger self clock' score (Some t)"
  by (simp add: should_trigger_def effective_now_truthy)

lemma should_trigger_follows_steps:
  assumes "gate_inv self" and "py_truthy t"
  shows "should_trigger self clock score (Some t) = spec_should_trigger self score t"
proof -
  let ?q = "recent_scores self"
  have over: "(maxlen ?q < length (items ?q @ [score]))
                = (frames_required (config self) < int (length (items ?q @ [score])))"
    using assms(1) by (auto simp: gate_inv_def)
  have buffer: "deque_append ?q score
      = ?q\<lparr>items := (if frames_required (config self) < int (length (items ?q @ [score]))
                      then tl (items ?q @ [score]) else items ?q @ [score])\<rparr>"
    unfolding deque_append_def Let_def over ..
  show ?thesis
    unfolding should_trigger_def spec_should_trigger_def effective_now_truthy [OF assms(2)]
      buffer Let_def
    by (simp add: deque_clear_def)
qed

lemma cooldown_freezes_gate:
  assumes "py_lt (py_sub (effective_now clock now) (last_triggered self))
                 (debounce_seconds (config self))"
  shows "should_trigger self clock score now = (False, self)"
  using assms by (simp add: should_trigger_def)

lemma cooldown_freezes_gate_supplied:
  assumes "py_truthy t"
    and "py_lt (py_sub t (last_triggered self)) (debounce_seconds (config self))"
  shows "should_trigger self clock score (Some t) = (False, self)"
  using assms cooldown_freezes_gate [of clock "Some t" self score]
  by (simp add: effective_now_truthy)

lemma run_calls_clock_irrelevant:
  assumes "list_all (\<lambda>(clock, score, now). case now of None \<Rightarrow> False | Some t \<Rightarrow> py_truthy t) calls"
    and "map snd calls = map snd calls'"
  shows "run_calls self calls = run_calls self calls'"
  using assms
proof (induction calls arbitrary: calls' self)
  case Nil
  then show ?case by simp
next
  case (Cons call rest)
  obtain call' rest' where calls': "calls' = call' # rest'"
    using Cons.prems(2) by (cases calls') auto
  obtain clock score now where call: "call = (clock, score, now)"
    by (cases call) auto
  obtain clock' where call': "call' = (clock', score, now)"
    using Cons.prems(2) calls' call by (cases call') auto
  obtain t where now: "now = Some t" "py_truthy t"
    using Cons.prems(1) call by (cases now) auto
  have step: "should_trigger self clock score now = should_trigger self clock' score now"
    using now should_trigger_clock_irrelevant by simp
  have "list_all (\<lambda>(clock, score, now). case now of None \<Rightarrow> False | Some t \<Rightarrow> py_truthy t) rest"
    and "map snd rest = map snd rest'"
    using Cons.prems calls' by simp_all
  from Cons.IH [OF this] show ?case
    using calls' call call' step by simp
qed

lemma should_trigger_fire_last_triggered:
  "should_trigger self clock score now = (True, fired) \<Longrightarrow>
   last_triggered fired = effective_now clock now"
  by (auto simp: should_trigger_def Let_def split: if_splits)

lemma should_trigger_quiet_last_triggered:
  "should_trigger self clock score now = (False, self') \<Longrightarrow>
   last_triggered self' = last_triggered self"
  by (auto simp: should_trigger_def Let_def split: if_splits)

lemma run_calls_quiet_last_triggered:
  "run_calls self calls = (outs, final) \<Longrightarrow> True \<notin> set outs \<Longrightarrow>
   last_triggered final = last_triggered self"
proof (induction calls arbitrary: self outs)
  case Nil
  then show ?case by simp
next
  case (Cons call rest)
  obtain clock score now where call: "call = (clock, score, now)"
    by (cases call) auto
  obtain fired mid where step: "should_trigger self clock score now = (fired, mid)"
    by (cases "should_trigger self clock score now") auto
  obtain outs' where rest: "run_calls mid rest = (outs', final)" and outs: "outs = fired # outs'"
    using Cons.prems(1) call step by (auto split: prod.splits)
  have quiet: "\<not> fired" "True \<notin> set outs'"
    using Cons.prems(2) outs by auto
  have "last_triggered mid = last_triggered self"
    using step quiet(1) should_trigger_quiet_last_triggered by simp
  with Cons.IH [OF rest quiet(2)] show ?case by simp
qed

lemma py_not_lt_ge:
  "\<not> py_lt (Fin r) d \<Longrightarrow> d \<noteq> NaN \<Longrightarrow> py_ge (Fin r) d"
  by (cases d) (auto simp: py_ge_def)

text \<open>
  With finite non-zero timestamps and a debounce that is not a NaN, two consecutive fires
  are at least \<open>debounce_seconds\<close> apart.
\<close>

lemma consecutive_fires_debounced:
  assumes "should_trigger self clock score (Some (Fin a)) = (True, fired)" and "a \<noteq> 0"
    and "run_calls fired calls = (outs, later)" and "True \<notin> set outs"
    and "should_trigger later clock' score' (Some (Fin b)) = (True, refired)" and "b \<noteq> 0"
    and "debounce_seconds (config self) \<noteq> NaN"
  shows "py_ge (py_sub (Fin b) (Fin a)) (debounce_seconds (config self))"
proof -
  have "last_triggered fired = Fin a"
    using should_trigger_fire_last_triggered [OF assms(1)] assms(2)
    by (simp add: effective_now_def)
  then have last: "last_triggered later = Fin a"
    using run_calls_quiet_last_triggered [OF assms(3,4)] by simp
  have cfg: "config later = config self"
    using run_calls_config [OF assms(3)] should_trigger_config [of self clock score "Some (Fin a)"]
      assms(1) by simp
  have "fst (should_trigger later clock' score' (Some (Fin b)))"
    using assms(5) by simp
  then have "\<not> py_lt (py_sub (Fin b) (Fin a)) (debounce_seconds (config self))"
    using last cfg assms(6) by (simp add: should_trigger_True_iff effective_now_def)
  then show ?thesis
    using py_not_lt_ge assms(7) by simp
qed

section \<open>A supplied timestamp of zero\<close>

text \<open>
  \<open>now = now or time.time()\<close> treats the supplied timestamp 0.0 like a missing one and
  reads the clock. The four evaluations below run the detector at such calls, with the
  clock at 1700000000 seconds.
\<close>

text \<open>
  Claim C1 at a call with \<open>now = 0.0\<close>, on the fresh detector of the debounce test:
  the five steps give false with the state unchanged (\<open>0.0 - 0.0 < 1.0\<close>); the code
  fires and stores the clock reading in \<open>last_triggered\<close>.
\<close>

theorem zero_timestamp_departs_from_steps:
  "spec_should_trigger
     \<lparr>config = debounce_config, recent_scores = \<lparr>items = [], maxlen = 1\<rparr>,
      last_triggered = Fin 0\<rparr>
     (Fin (3 / 5)) (Fin 0)
   = (False, \<lparr>config = debounce_config, recent_scores = \<lparr>items = [], maxlen = 1\<rparr>,
              last_triggered = Fin 0\<rparr>)
   \<and> should_trigger
     \<lparr>config = debounce_config, recent_scores = \<lparr>items = [], maxlen = 1\<rparr>,
      last_triggered = Fin 0\<rparr>
     (Fin 1700000000) (Fin (3 / 5)) (Some (Fin 0))
   = (True, \<lparr>config = debounce_config, recent_scores = \<lparr>items = [], maxlen = 1\<rparr>,
             last_triggered = Fin 1700000000\<rparr>)"
  by (simp add: spec_should_trigger_def gate_eval)

text \<open>
  Claim C3 at two calls with \<open>now = 0.0\<close>: two detectors built from the debounce test's
  configuration get the same \<open>(score, now)\<close> pairs; the second call comes half a second
  after the first for one detector and two seconds after it for the other, and the
  outputs differ.
\<close>

theorem zero_timestamp_outputs_follow_clock:
  "EyeRollDetector_init (Some debounce_config)
   = Inr \<lparr>config = debounce_config, recent_scores = \<lparr>items = [], maxlen = 1\<rparr>,
          last_triggered = Fin 0\<rparr>
   \<and> fst (run_calls
       \<lparr>config = debounce_config, recent_scores = \<lparr>items = [], maxlen = 1\<rparr>,
        last_triggered = Fin 0\<rparr>
       [(Fin 1700000000, Fin (3 / 5), Some (Fin 0)),
        (Fin (1700000000 + 1 / 2), Fin (3 / 5), Some (Fin 0))])
     = [True, False]
   \<and> fst (run_calls
       \<lparr>config = debounce_config, recent_scores = \<lparr>items = [], maxlen = 1\<rparr>,
        last_triggered = Fin 0\<rparr>
       [(Fin 1700000000, Fin (3 / 5), Some (Fin 0)),
        (Fin (1700000000 + 2), Fin (3 / 5), Some (Fin 0))])
     = [True, True]"
  by (simp add: gate_eval)

text \<open>
  Claim C4 at two calls with \<open>now = 0.0\<close>, two seconds apart on the clock: the
  timestamps are non-decreasing, both calls return true, and the difference of the
  timestamp arguments, 0.0, is not \<open>>= debounce_seconds\<close>.
\<close>

theorem zero_timestamps_fire_without_elapsed_time:
  "py_le (Fin 0) (Fin 0)
   \<and> fst (run_calls
       \<lparr>config = debounce_config, recent_scores = \<lparr>items = [], maxlen = 1\<rparr>,
        last_triggered = Fin 0\<rparr>
       [(Fin 1700000000, Fin (3 / 5), Some (Fin 0)),
        (Fin (1700000000 + 2), Fin (7 / 10), Some (Fin 0))])
     = [True, True]
   \<and> \<not> py_ge (py_sub (Fin 0) (Fin 0)) (debounce_seconds debounce_config)"
  by (simp add: gate_eval)

text \<open>
  Claim C5 at a call with \<open>now = 0.0\<close>, on the fresh detector of the default
  configuration: \<open>now - last_triggered < debounce_seconds\<close> holds for the argument, the
  call returns false, and the score has been appended to \<open>recent_scores\<close>.
\<close>

theorem zero_timestamp_accumulates_in_cooldown:
  "EyeRollDetector_init None
   = Inr \<lparr>config = default_config, recent_scores = \<lparr>items = [], maxlen = 3\<rparr>,
          last_triggered = Fin 0\<rparr>
   \<and> py_lt (py_sub (Fin 0) (Fin 0)) (debounce_seconds default_config)
   \<and> should_trigger
       \<lparr>config = default_config, recent_scores = \<lparr>items = [], maxlen = 3\<rparr>,
        last_triggered = Fin 0\<rparr>
       (Fin 1700000000) (Fin (7 / 10)) (Some (Fin 0))
     = (False, \<lparr>config = default_config,
                recent_scores = \<lparr>items = [Fin (7 / 10)], maxlen = 3\<rparr>,
                last_triggered = Fin 0\<rparr>)"
  by (simp add: gate_eval)

end
